theory Spec2Isabelle
  imports Complex_Main
begin

section \<open>Python floats\<close>

text \<open>
  The detector of \<^verbatim>\<open>creme/drift/ddm.py\<close> computes with Python floats. A float is
  modelled as an exact real number or one of the three special values of IEEE 754;
  rounding and overflow of finite values are not modelled. The special values are needed:
  \<^verbatim>\<open>reset\<close> stores \<^verbatim>\<open>float("inf")\<close> in the three minima, and \<^verbatim>\<open>np.sqrt\<close> of a negative
  number is \<^verbatim>\<open>nan\<close>.
\<close>

datatype pyfloat = Fin real | PInf | NInf | NaN

fun fneg :: "pyfloat \<Rightarrow> pyfloat" where
  "fneg (Fin a) = Fin (- a)"
| "fneg PInf = NInf"
| "fneg NInf = PInf"
| "fneg NaN = NaN"

fun fadd :: "pyfloat \<Rightarrow> pyfloat \<Rightarrow> pyfloat" where
  "fadd NaN _ = NaN"
| "fadd _ NaN = NaN"
| "fadd (Fin a) (Fin b) = Fin (a + b)"
| "fadd PInf NInf = NaN"
| "fadd NInf PInf = NaN"
| "fadd PInf _ = PInf"
| "fadd _ PInf = PInf"
| "fadd NInf _ = NInf"
| "fadd _ NInf = NInf"

definition fsub :: "pyfloat \<Rightarrow> pyfloat \<Rightarrow> pyfloat" where
  "fsub a b = fadd a (fneg b)"

text \<open>The sign of a float that is not \<^verbatim>\<open>nan\<close>: \<open>-1\<close>, \<open>0\<close> or \<open>1\<close>.\<close>

fun fsign :: "pyfloat \<Rightarrow> int" where
  "fsign (Fin a) = (if a < 0 then - 1 else if a = 0 then 0 else 1)"
| "fsign PInf = 1"
| "fsign NInf = - 1"
| "fsign NaN = 0"

fun fmul :: "pyfloat \<Rightarrow> pyfloat \<Rightarrow> pyfloat" where
  "fmul NaN _ = NaN"
| "fmul _ NaN = NaN"
| "fmul (Fin a) (Fin b) = Fin (a * b)"
| "fmul a b =
     (if fsign a * fsign b = 0 then NaN
      else if fsign a * fsign b < 0 then NInf else PInf)"

text \<open>\<^verbatim>\<open>a < b\<close> and \<^verbatim>\<open>a <= b\<close>: every comparison with \<^verbatim>\<open>nan\<close> is false.\<close>

fun flt :: "pyfloat \<Rightarrow> pyfloat \<Rightarrow> bool" where
  "flt NaN _ = False"
| "flt _ NaN = False"
| "flt (Fin a) (Fin b) = (a < b)"
| "flt PInf _ = False"
| "flt _ PInf = True"
| "flt NInf NInf = False"
| "flt NInf _ = True"
| "flt _ NInf = False"

fun fle :: "pyfloat \<Rightarrow> pyfloat \<Rightarrow> bool" where
  "fle NaN _ = False"
| "fle _ NaN = False"
| "fle (Fin a) (Fin b) = (a \<le> b)"
| "fle _ PInf = True"
| "fle PInf _ = False"
| "fle NInf _ = True"
| "fle _ NInf = False"

text \<open>\<^verbatim>\<open>a > b\<close> is \<^verbatim>\<open>b < a\<close>.\<close>

definition fgt :: "pyfloat \<Rightarrow> pyfloat \<Rightarrow> bool" where
  "fgt a b = flt b a"

text \<open>\<^verbatim>\<open>np.sqrt\<close>: \<^verbatim>\<open>nan\<close> (with a warning, no exception) on a negative argument.\<close>

fun fsqrt :: "pyfloat \<Rightarrow> pyfloat" where
  "fsqrt (Fin a) = (if a < 0 then NaN else Fin (sqrt a))"
| "fsqrt PInf = PInf"
| "fsqrt NInf = NaN"
| "fsqrt NaN = NaN"

datatype error = ZeroDivisionError

text \<open>
  \<^verbatim>\<open>a / b\<close> on Python floats raises \<^verbatim>\<open>ZeroDivisionError\<close> when the divisor is zero,
  whatever the dividend.
\<close>

fun fdiv :: "pyfloat \<Rightarrow> pyfloat \<Rightarrow> error + pyfloat" where
  "fdiv a (Fin b) =
     (if b = 0 then Inl ZeroDivisionError
      else case a of
        Fin x \<Rightarrow> Inr (Fin (x / b))
      | NaN \<Rightarrow> Inr NaN
      | _ \<Rightarrow> Inr (if fsign a * fsign (Fin b) < 0 then NInf else PInf))"
| "fdiv a NaN = Inr NaN"
| "fdiv (Fin x) _ = Inr (Fin 0)"
| "fdiv _ _ = Inr NaN"

text \<open>\<^verbatim>\<open>float(n)\<close> of a Python integer.\<close>

definition float_of_int :: "int \<Rightarrow> pyfloat" where
  "float_of_int n = Fin (of_int n)"

section \<open>The detector state\<close>

text \<open>
  The attributes of a \<^verbatim>\<open>DDM\<close> object. \<^verbatim>\<open>in_concept_change\<close> and \<^verbatim>\<open>in_warning_zone\<close>
  are the attributes \<^verbatim>\<open>_in_concept_change\<close> and \<^verbatim>\<open>_in_warning_zone\<close> of the base class.
  \<^verbatim>\<open>estimation\<close> and \<^verbatim>\<open>delay\<close> are \<^verbatim>\<open>None\<close> until the first call of \<^verbatim>\<open>add_element\<close>.
\<close>

record ddm =
  in_concept_change :: bool
  in_warning_zone :: bool
  sample_count :: int
  miss_prob :: pyfloat
  miss_std :: pyfloat
  miss_prob_sd_min :: pyfloat
  miss_prob_min :: pyfloat
  miss_sd_min :: pyfloat
  min_instances :: int
  warning_level :: pyfloat
  out_control_level :: pyfloat
  estimation :: "pyfloat option"
  delay :: "int option"

text \<open>
  Modelled from the spec: the base class \<^verbatim>\<open>DriftDetector\<close> of \<^verbatim>\<open>creme.base\<close>, whose
  \<^verbatim>\<open>reset\<close> is called by \<^verbatim>\<open>super().reset()\<close>. It holds the two flags that
  \<^verbatim>\<open>add_element\<close> sets and reads, and its \<^verbatim>\<open>reset\<close> clears both.
\<close>

definition base_reset :: "ddm \<Rightarrow> ddm" where
  "base_reset self = self\<lparr>in_concept_change := False, in_warning_zone := False\<rparr>"

text \<open>\<^verbatim>\<open>DDM.reset\<close>, lines 94 to 106.\<close>

definition reset :: "ddm \<Rightarrow> ddm" where
  "reset self = (base_reset self)
     \<lparr>sample_count := 1,
      miss_prob := Fin 1,
      miss_std := Fin 0,
      miss_prob_sd_min := PInf,
      miss_prob_min := PInf,
      miss_sd_min := PInf\<rparr>"

text \<open>
  \<^verbatim>\<open>DDM.__init__\<close>, lines 79 to 92: the six statistics are \<^verbatim>\<open>None\<close> only until the
  call of \<^verbatim>\<open>reset\<close> that ends the constructor, so the record is written with the values
  \<^verbatim>\<open>reset\<close> gives them; \<^verbatim>\<open>estimation\<close> and \<^verbatim>\<open>delay\<close> stay \<^verbatim>\<open>None\<close>.
\<close>

definition DDM_init :: "int \<Rightarrow> pyfloat \<Rightarrow> pyfloat \<Rightarrow> ddm" where
  "DDM_init min_num_instances wl ocl =
     \<lparr>in_concept_change = False,
      in_warning_zone = False,
      sample_count = 1,
      miss_prob = Fin 1,
      miss_std = Fin 0,
      miss_prob_sd_min = PInf,
      miss_prob_min = PInf,
      miss_sd_min = PInf,
      min_instances = min_num_instances,
      warning_level = wl,
      out_control_level = ocl,
      estimation = None,
      delay = None\<rparr>"

text \<open>The default configuration: \<^verbatim>\<open>DDM()\<close>.\<close>

definition DDM_default :: ddm where
  "DDM_default = DDM_init 30 (Fin 2) (Fin 3)"

section \<open>Adding an element\<close>

text \<open>
  Lines 128 to 135: the running mean, its standard deviation, the count, and the flags
  cleared. Both divisions are by \<^verbatim>\<open>float(self.sample_count)\<close>, read before line 130
  increments it.
\<close>

definition update_statistics :: "ddm \<Rightarrow> int \<Rightarrow> error + ddm" where
  "update_statistics self prediction =
     (case fdiv (fsub (float_of_int prediction) (miss_prob self))
                (float_of_int (sample_count self)) of
        Inl e \<Rightarrow> Inl e
      | Inr q \<Rightarrow>
          let self = self\<lparr>miss_prob := fadd (miss_prob self) q\<rparr> in
          (case fdiv (fmul (miss_prob self) (fsub (Fin 1) (miss_prob self)))
                     (float_of_int (sample_count self)) of
             Inl e \<Rightarrow> Inl e
           | Inr v \<Rightarrow>
               let self = self\<lparr>miss_std := fsqrt v\<rparr>;
                   self = self\<lparr>sample_count := sample_count self + 1\<rparr>
               in Inr (self\<lparr>estimation := Some (miss_prob self),
                             in_concept_change := False,
                             in_warning_zone := False,
                             delay := Some 0\<rparr>)))"

text \<open>Lines 140 to 143: the coupled snapshot of the minimum of \<^verbatim>\<open>miss_prob + miss_std\<close>.\<close>

definition track_minimum :: "ddm \<Rightarrow> ddm" where
  "track_minimum self =
     (if fle (fadd (miss_prob self) (miss_std self)) (miss_prob_sd_min self)
      then self\<lparr>miss_prob_min := miss_prob self,
                miss_sd_min := miss_std self,
                miss_prob_sd_min := fadd (miss_prob self) (miss_std self)\<rparr>
      else self)"

text \<open>Lines 145 to 154: the drift test first, the warning test only when it fails.\<close>

definition classify :: "ddm \<Rightarrow> ddm" where
  "classify self =
     (if fgt (fadd (miss_prob self) (miss_std self))
             (fadd (miss_prob_min self) (fmul (out_control_level self) (miss_sd_min self)))
      then self\<lparr>in_concept_change := True\<rparr>
      else if fgt (fadd (miss_prob self) (miss_std self))
                  (fadd (miss_prob_min self) (fmul (warning_level self) (miss_sd_min self)))
      then self\<lparr>in_warning_zone := True\<rparr>
      else self\<lparr>in_warning_zone := False\<rparr>)"

text \<open>
  \<^verbatim>\<open>DDM.add_element\<close>, lines 108 to 156. The result is the new state of the object and
  the pair \<^verbatim>\<open>(in_concept_change, in_warning_zone)\<close> that the method returns.
\<close>

definition add_element :: "ddm \<Rightarrow> int \<Rightarrow> error + (ddm \<times> bool \<times> bool)" where
  "add_element self prediction =
     (let self = (if in_concept_change self then reset self else self) in
      case update_statistics self prediction of
        Inl e \<Rightarrow> Inl e
      | Inr self \<Rightarrow>
          if sample_count self < min_instances self
          then Inr (self, in_concept_change self, in_warning_zone self)
          else let self = classify (track_minimum self)
               in Inr (self, in_concept_change self, in_warning_zone self))"

text \<open>
  The loop of the class's example: one detector fed a stream, element by element, the
  returned pairs collected in order. An exception ends the loop.
\<close>

fun run :: "ddm \<Rightarrow> int list \<Rightarrow> error + (ddm \<times> (bool \<times> bool) list)" where
  "run self [] = Inr (self, [])"
| "run self (x # xs) =
     (case add_element self x of
        Inl e \<Rightarrow> Inl e
      | Inr (self', out) \<Rightarrow>
          (case run self' xs of
             Inl e \<Rightarrow> Inl e
           | Inr (self'', outs) \<Rightarrow> Inr (self'', out # outs)))"

section \<open>Well-formed statistics\<close>

text \<open>
  What holds of the statistics of a detector fed observations in \<open>{0, 1}\<close>: a positive
  count, a mean with \<^verbatim>\<open>0.0 <= miss_prob <= 1.0\<close>, a finite standard deviation with
  \<^verbatim>\<open>0.0 <= miss_std\<close>, and a minimum that is not \<^verbatim>\<open>nan\<close>.
\<close>

definition stats_ok :: "ddm \<Rightarrow> bool" where
  "stats_ok self \<longleftrightarrow>
     0 < sample_count self \<and>
     fle (Fin 0) (miss_prob self) \<and> fle (miss_prob self) (Fin 1) \<and>
     fle (Fin 0) (miss_std self) \<and> flt (miss_std self) PInf \<and>
     miss_prob_sd_min self \<noteq> NaN"

section \<open>The running minimum\<close>

text \<open>The states of the object after each call of the loop, in order.\<close>

fun trace :: "ddm \<Rightarrow> int list \<Rightarrow> ddm list" where
  "trace self [] = []"
| "trace self (x # xs) =
     (case add_element self x of
        Inl e \<Rightarrow> []
      | Inr (self', out) \<Rightarrow> self' # trace self' xs)"

text \<open>\<^verbatim>\<open>self.miss_prob + self.miss_std\<close>, the quantity that lines 140 to 150 compare.\<close>

definition miss_sum :: "ddm \<Rightarrow> pyfloat" where
  "miss_sum self = fadd (miss_prob self) (miss_std self)"

text \<open>
  A minimum tracked the way lines 140 to 143 do: a value replaces the minimum when
  \<^verbatim>\<open>value <= minimum\<close>.
\<close>

fun running_min :: "pyfloat \<Rightarrow> pyfloat list \<Rightarrow> pyfloat" where
  "running_min m [] = m"
| "running_min m (v # vs) = running_min (if fle v m then v else m) vs"

text \<open>The guard of line 137 did not end the call.\<close>

definition past_warm_up :: "ddm \<Rightarrow> bool" where
  "past_warm_up self \<longleftrightarrow> \<not> sample_count self < min_instances self"

text \<open>
  Following the spec's words (section 8, monotonic minimum): the minimum of
  \<^verbatim>\<open>error_rate + error_std\<close> over all calls since the reset, tracked from the very first
  call, before the warm-up gate.
\<close>

definition spec_min_sum :: "ddm \<Rightarrow> int list \<Rightarrow> pyfloat" where
  "spec_min_sum start xs = running_min PInf (map miss_sum (trace start xs))"

text \<open>The same minimum over the calls that pass the guard of line 137 only.\<close>

definition gated_min_sum :: "ddm \<Rightarrow> int list \<Rightarrow> pyfloat" where
  "gated_min_sum start xs =
     running_min PInf (map miss_sum (filter past_warm_up (trace start xs)))"

section \<open>The two thresholds\<close>

text \<open>
  The right-hand sides of the comparisons of lines 145 and 149:
  \<^verbatim>\<open>miss_prob_min + warning_level * miss_sd_min\<close> and
  \<^verbatim>\<open>miss_prob_min + out_control_level * miss_sd_min\<close>.
\<close>

definition warning_threshold :: "ddm \<Rightarrow> pyfloat" where
  "warning_threshold self =
     fadd (miss_prob_min self) (fmul (warning_level self) (miss_sd_min self))"

definition out_control_threshold :: "ddm \<Rightarrow> pyfloat" where
  "out_control_threshold self =
     fadd (miss_prob_min self) (fmul (out_control_level self) (miss_sd_min self))"

section \<open>Basic facts about the steps\<close>

lemma fsub_Fin [simp]: "fsub (Fin a) (Fin b) = Fin (a - b)"
  by (simp add: fsub_def)

lemma fdiv_Inr: "b \<noteq> 0 \<Longrightarrow> \<exists>r. fdiv a (Fin b) = Inr r"
  by (cases a) simp_all

lemma reset_config [simp]:
  "min_instances (reset self) = min_instances self"
  "warning_level (reset self) = warning_level self"
  "out_control_level (reset self) = out_control_level self"
  by (simp_all add: reset_def base_reset_def)

lemma reset_fields [simp]:
  "sample_count (reset self) = 1"
  "miss_prob (reset self) = Fin 1"
  "miss_std (reset self) = Fin 0"
  "miss_prob_sd_min (reset self) = PInf"
  "miss_prob_min (reset self) = PInf"
  "miss_sd_min (reset self) = PInf"
  "in_concept_change (reset self) = False"
  "in_warning_zone (reset self) = False"
  by (simp_all add: reset_def base_reset_def)

lemma track_minimum_flags [simp]:
  "in_concept_change (track_minimum self) = in_concept_change self"
  "in_warning_zone (track_minimum self) = in_warning_zone self"
  by (simp_all add: track_minimum_def)

lemma track_minimum_config [simp]:
  "min_instances (track_minimum self) = min_instances self"
  "warning_level (track_minimum self) = warning_level self"
  "out_control_level (track_minimum self) = out_control_level self"
  by (simp_all add: track_minimum_def)

lemma track_minimum_stats [simp]:
  "sample_count (track_minimum self) = sample_count self"
  "miss_prob (track_minimum self) = miss_prob self"
  "miss_std (track_minimum self) = miss_std self"
  by (simp_all add: track_minimum_def)

lemma classify_config [simp]:
  "min_instances (classify self) = min_instances self"
  "warning_level (classify self) = warning_level self"
  "out_control_level (classify self) = out_control_level self"
  by (simp_all add: classify_def)

lemma classify_stats [simp]:
  "sample_count (classify self) = sample_count self"
  "miss_prob (classify self) = miss_prob self"
  "miss_std (classify self) = miss_std self"
  "miss_prob_sd_min (classify self) = miss_prob_sd_min self"
  "miss_prob_min (classify self) = miss_prob_min self"
  "miss_sd_min (classify self) = miss_sd_min self"
  by (simp_all add: classify_def)

lemma update_statistics_flags:
  "update_statistics self x = Inr self' \<Longrightarrow>
   \<not> in_concept_change self' \<and> \<not> in_warning_zone self'"
  by (auto simp: update_statistics_def Let_def split: sum.splits)

lemma update_statistics_config:
  "update_statistics self x = Inr self' \<Longrightarrow>
   min_instances self' = min_instances self \<and> warning_level self' = warning_level self \<and>
   out_control_level self' = out_control_level self"
  by (auto simp: update_statistics_def Let_def split: sum.splits)

lemma update_statistics_minima:
  "update_statistics self x = Inr self' \<Longrightarrow>
   miss_prob_sd_min self' = miss_prob_sd_min self \<and> miss_prob_min self' = miss_prob_min self \<and>
   miss_sd_min self' = miss_sd_min self"
  by (auto simp: update_statistics_def Let_def split: sum.splits)

lemma update_statistics_count:
  "update_statistics self x = Inr self' \<Longrightarrow> sample_count self' = sample_count self + 1"
  by (auto simp: update_statistics_def Let_def split: sum.splits)

text \<open>With a finite mean and a count that is not zero, lines 128 to 135 in real numbers.\<close>

lemma update_statistics_Fin:
  assumes "miss_prob self = Fin p" and "sample_count self \<noteq> 0"
  shows "update_statistics self x =
    Inr (self\<lparr>miss_prob := Fin (p + (of_int x - p) / of_int (sample_count self)),
              miss_std := fsqrt (Fin ((p + (of_int x - p) / of_int (sample_count self))
                 * (1 - (p + (of_int x - p) / of_int (sample_count self)))
                 / of_int (sample_count self))),
              sample_count := sample_count self + 1,
              estimation := Some (Fin (p + (of_int x - p) / of_int (sample_count self))),
              in_concept_change := False,
              in_warning_zone := False,
              delay := Some 0\<rparr>)"
  using assms by (simp add: update_statistics_def float_of_int_def Let_def del: fsqrt.simps)

text \<open>The divisions raise only on a count of zero.\<close>

lemma update_statistics_total:
  assumes "sample_count self \<noteq> 0"
  shows "\<exists>self'. update_statistics self x = Inr self'"
proof -
  from assms have nz: "real_of_int (sample_count self) \<noteq> 0" by simp
  from fdiv_Inr [OF nz] obtain q where
    q: "fdiv (fsub (Fin (real_of_int x)) (miss_prob self))
          (Fin (real_of_int (sample_count self))) = Inr q"
    by blast
  from fdiv_Inr [OF nz] obtain v where
    v: "fdiv (fmul (fadd (miss_prob self) q) (fsub (Fin 1) (fadd (miss_prob self) q)))
          (Fin (real_of_int (sample_count self))) = Inr v"
    by blast
  show ?thesis
    by (simp add: update_statistics_def Let_def float_of_int_def q v del: fdiv.simps)
qed

lemma add_element_out:
  "add_element self x = Inr (self', d, w) \<Longrightarrow>
   d = in_concept_change self' \<and> w = in_warning_zone self'"
  by (auto simp: add_element_def Let_def split: sum.splits if_splits)

lemma add_element_count:
  "add_element self x = Inr (self', out) \<Longrightarrow>
   sample_count self' = (if in_concept_change self then 1 else sample_count self) + 1"
  by (auto simp: add_element_def Let_def split: sum.splits if_splits
      dest!: update_statistics_count)

lemma add_element_config:
  "add_element self x = Inr (self', out) \<Longrightarrow>
   min_instances self' = min_instances self \<and> warning_level self' = warning_level self \<and>
   out_control_level self' = out_control_level self"
  by (auto simp: add_element_def Let_def split: sum.splits if_splits
      dest!: update_statistics_config)

lemma add_element_exclusive:
  "add_element self x = Inr (self', d, w) \<Longrightarrow> \<not> (d \<and> w)"
  by (auto simp: add_element_def Let_def classify_def split: sum.splits if_splits
      dest!: update_statistics_flags)

text \<open>
  A call returns when the count is positive or a reset is pending: every state made by
  \<^verbatim>\<open>__init__\<close>, \<^verbatim>\<open>reset\<close> or an earlier call is such a state.
\<close>

lemma add_element_total:
  assumes "0 < sample_count self \<or> in_concept_change self"
  shows "\<exists>self' out. add_element self x = Inr (self', out)"
proof -
  define s0 where "s0 = (if in_concept_change self then reset self else self)"
  have "sample_count s0 \<noteq> 0" using assms by (auto simp: s0_def)
  from update_statistics_total [OF this] obtain s1 where
    "update_statistics s0 x = Inr s1" by blast
  then show ?thesis
    by (simp add: add_element_def Let_def flip: s0_def)
qed

lemma add_element_count_pos:
  assumes "0 < sample_count self \<or> in_concept_change self"
    and "add_element self x = Inr (self', out)"
  shows "0 < sample_count self'"
  using add_element_count [OF assms(2)] assms(1) by (auto split: if_splits)

lemma run_total:
  "0 < sample_count self \<or> in_concept_change self \<Longrightarrow>
   \<exists>self' outs. run self xs = Inr (self', outs) \<and> length outs = length xs"
proof (induction xs arbitrary: self)
  case Nil
  then show ?case by simp
next
  case (Cons x xs)
  from add_element_total [OF Cons.prems] obtain s1 out where
    s1: "add_element self x = Inr (s1, out)" by blast
  from add_element_count_pos [OF Cons.prems s1] have "0 < sample_count s1" .
  then obtain s2 outs where "run s1 xs = Inr (s2, outs)" "length outs = length xs"
    using Cons.IH by blast
  with s1 show ?case by simp
qed

lemma run_exclusive:
  "run self xs = Inr (self', outs) \<Longrightarrow> (d, w) \<in> set outs \<Longrightarrow> \<not> (d \<and> w)"
proof (induction xs arbitrary: self outs)
  case Nil
  then show ?case by simp
next
  case (Cons x xs)
  from Cons.prems(1) obtain s1 d1 w1 outs1 where
    s1: "add_element self x = Inr (s1, d1, w1)" and
    r: "run s1 xs = Inr (self', outs1)" and o: "outs = (d1, w1) # outs1"
    by (auto split: sum.splits)
  from Cons.prems(2) o have "(d, w) = (d1, w1) \<or> (d, w) \<in> set outs1" by auto
  then show ?case
  proof
    assume "(d, w) = (d1, w1)"
    with add_element_exclusive [OF s1] show ?thesis by simp
  next
    assume "(d, w) \<in> set outs1"
    with Cons.IH [OF r] show ?thesis .
  qed
qed

lemma run_config:
  "run self xs = Inr (self', outs) \<Longrightarrow>
   min_instances self' = min_instances self \<and> warning_level self' = warning_level self \<and>
   out_control_level self' = out_control_level self"
proof (induction xs arbitrary: self outs)
  case Nil
  then show ?case by simp
next
  case (Cons x xs)
  from Cons.prems obtain s1 out outs1 where
    s1: "add_element self x = Inr (s1, out)" and r: "run s1 xs = Inr (self', outs1)"
    by (auto split: sum.splits)
  from add_element_config [OF s1] Cons.IH [OF r] show ?case by simp
qed

section \<open>Mutual exclusion of the two flags\<close>

text \<open>
  Claim C5. For every stream of observations, fed to a detector whose count is positive
  or whose reset is pending, every call returns, and no returned pair has
  \<^verbatim>\<open>in_drift\<close> and \<^verbatim>\<open>in_warning\<close> both true.
\<close>

theorem mutual_exclusion:
  assumes "0 < sample_count self \<or> in_concept_change self"
  shows "\<exists>self' outs. run self xs = Inr (self', outs) \<and> length outs = length xs \<and>
           (\<forall>(d, w) \<in> set outs. \<not> (d \<and> w))"
proof -
  from run_total [OF assms] obtain self' outs where
    r: "run self xs = Inr (self', outs)" and l: "length outs = length xs" by blast
  have "\<forall>(d, w) \<in> set outs. \<not> (d \<and> w)"
    using run_exclusive [OF r] by blast
  with r l show ?thesis by blast
qed

theorem mutual_exclusion_witness:
  "0 < sample_count (DDM_init 1 (Fin 2) (Fin 3)) \<and>
   (\<exists>self' outs. run (DDM_init 1 (Fin 2) (Fin 3)) [0, 1] = Inr (self', outs) \<and>
      length outs = 2 \<and> (True, True) \<notin> set outs)"
proof -
  have h: "0 < sample_count (DDM_init 1 (Fin 2) (Fin 3)) \<or>
           in_concept_change (DDM_init 1 (Fin 2) (Fin 3))"
    by (simp add: DDM_init_def)
  from mutual_exclusion [OF h, of "[0, 1]"] show ?thesis
    by (auto simp: DDM_init_def)
qed

section \<open>The configuration is never written\<close>

text \<open>
  Claim C10. \<^verbatim>\<open>min_instances\<close>, \<^verbatim>\<open>warning_level\<close> and \<^verbatim>\<open>out_control_level\<close> are set by
  the constructor from its arguments, and \<^verbatim>\<open>reset\<close>, every call of \<^verbatim>\<open>add_element\<close> and
  every run of calls leave the three fields as they were.
\<close>

theorem configuration_frame:
  "min_instances (DDM_init m wl ocl) = m \<and>
   warning_level (DDM_init m wl ocl) = wl \<and>
   out_control_level (DDM_init m wl ocl) = ocl \<and>
   min_instances (reset self) = min_instances self \<and>
   warning_level (reset self) = warning_level self \<and>
   out_control_level (reset self) = out_control_level self \<and>
   (add_element self x = Inr (self', out) \<longrightarrow>
      min_instances self' = min_instances self \<and>
      warning_level self' = warning_level self \<and>
      out_control_level self' = out_control_level self) \<and>
   (run self xs = Inr (self'', outs) \<longrightarrow>
      min_instances self'' = min_instances self \<and>
      warning_level self'' = warning_level self \<and>
      out_control_level self'' = out_control_level self)"
  using add_element_config [of self x self' out] run_config [of self xs self'' outs]
  by (simp add: DDM_init_def)

theorem configuration_frame_witness:
  fixes after :: ddm
  defines "after \<equiv> DDM_default\<lparr>sample_count := 2, miss_prob := Fin 0,
             estimation := Some (Fin 0), delay := Some 0\<rparr>"
  shows "add_element DDM_default 0 = Inr (after, False, False) \<and>
         min_instances after = min_instances DDM_default \<and>
         warning_level after = warning_level DDM_default \<and>
         out_control_level after = out_control_level DDM_default \<and>
         run DDM_default [0] = Inr (after, [(False, False)])"
proof -
  have a: "add_element DDM_default 0 = Inr (after, False, False)"
    by (simp add: after_def DDM_default_def DDM_init_def add_element_def update_statistics_def
        float_of_int_def Let_def)
  then have r: "run DDM_default [0] = Inr (after, [(False, False)])" by simp
  from a r configuration_frame [of 30 "Fin 2" "Fin 3" DDM_default 0 after "(False, False)"
      "[0]" after "[(False, False)]"]
  show ?thesis by simp
qed

section \<open>Reset\<close>

lemma reset_reset: "reset (reset self) = reset self"
  by (simp add: reset_def base_reset_def)

lemma DDM_init_reset: "reset (DDM_init m wl ocl) = DDM_init m wl ocl"
  by (simp add: reset_def base_reset_def DDM_init_def)

text \<open>Lines 128 to 135 assign \<^verbatim>\<open>estimation\<close> and \<^verbatim>\<open>delay\<close> and never read them.\<close>
lemma update_statistics_estimation_delay:
  "update_statistics (self\<lparr>estimation := e, delay := dl\<rparr>) x = update_statistics self x"
  by (simp add: update_statistics_def Let_def split: sum.splits)

lemma reset_as_init:
  "reset self = (DDM_init (min_instances self) (warning_level self) (out_control_level self))
      \<lparr>estimation := estimation self, delay := delay self\<rparr>"
  by (simp add: reset_def base_reset_def DDM_init_def)

lemma add_element_reset_init:
  "add_element (reset self) x =
   add_element (DDM_init (min_instances self) (warning_level self) (out_control_level self)) x"
proof -
  let ?i = "DDM_init (min_instances self) (warning_level self) (out_control_level self)"
  have f: "\<not> in_concept_change ?i" by (simp add: DDM_init_def)
  have "update_statistics (reset self) x = update_statistics ?i x"
    by (simp only: reset_as_init [of self] update_statistics_estimation_delay)
  with f show ?thesis
    by (simp add: add_element_def)
qed

lemma add_element_lazy_reset:
  "in_concept_change self \<Longrightarrow> add_element self x = add_element (reset self) x"
  by (simp add: add_element_def)

lemma run_reset_init:
  "map_sum id snd (run (reset self) xs) =
   map_sum id snd (run (DDM_init (min_instances self) (warning_level self)
     (out_control_level self)) xs)"
proof (cases xs)
  case Nil
  then show ?thesis by simp
next
  case (Cons y ys)
  then show ?thesis by (simp add: add_element_reset_init)
qed

text \<open>
  Claim C8. Calling \<^verbatim>\<open>reset\<close> twice gives the state that one call gives. A detector
  that has just been reset returns, on every stream of observations, the pairs that a
  freshly constructed detector of the same configuration returns, and every call returns.
\<close>

theorem reset_idempotent:
  "reset (reset self) = reset self \<and>
   map_sum id snd (run (reset self) xs) =
   map_sum id snd (run (DDM_init (min_instances self) (warning_level self)
     (out_control_level self)) xs) \<and>
   (\<exists>outs. map_sum id snd (run (reset self) xs) = Inr outs \<and> length outs = length xs)"
proof -
  have "0 < sample_count (reset self) \<or> in_concept_change (reset self)" by simp
  from run_total [OF this, of xs] obtain self' outs where
    "run (reset self) xs = Inr (self', outs)" "length outs = length xs" by blast
  then have "\<exists>outs. map_sum id snd (run (reset self) xs) = Inr outs \<and> length outs = length xs"
    by simp
  with reset_reset run_reset_init show ?thesis by blast
qed

theorem reset_idempotent_witness:
  "reset (reset DDM_default) = DDM_default \<and>
   map_sum id snd (run (reset DDM_default) [0]) = Inr [(False, False)]"
proof -
  have r: "reset DDM_default = DDM_default"
    by (simp add: DDM_default_def DDM_init_reset)
  have "add_element DDM_default 0 =
     Inr (DDM_default\<lparr>sample_count := 2, miss_prob := Fin 0, estimation := Some (Fin 0),
            delay := Some 0\<rparr>, False, False)"
    by (simp add: DDM_default_def DDM_init_def add_element_def update_statistics_def
        float_of_int_def Let_def)
  then have "map_sum id snd (run DDM_default [0]) = Inr [(False, False)]"
    by simp
  with r reset_idempotent [of DDM_default "[0]"] show ?thesis by simp
qed

section \<open>The lazy reset after a drift\<close>

text \<open>
  The first call after a reset: the divisor is 1, so the mean is the observation itself,
  and the minima are infinite (warm-up) or the statistics of this call.
\<close>

lemma add_element_after_reset:
  "\<exists>self' out. add_element (reset self) x = Inr (self', out) \<and>
     sample_count self' = 2 \<and>
     miss_prob self' = Fin (of_int x) \<and>
     miss_std self' = fsqrt (Fin (of_int x * (1 - of_int x))) \<and>
     (miss_prob_sd_min self' = PInf \<and> miss_prob_min self' = PInf \<and> miss_sd_min self' = PInf \<or>
      miss_prob_sd_min self' = fadd (miss_prob self') (miss_std self') \<and>
      miss_prob_min self' = miss_prob self' \<and> miss_sd_min self' = miss_std self')"
proof -
  have u: "update_statistics (reset self) x =
    Inr ((reset self)\<lparr>miss_prob := Fin (of_int x),
              miss_std := fsqrt (Fin (of_int x * (1 - of_int x))),
              sample_count := 2,
              estimation := Some (Fin (of_int x)),
              in_concept_change := False,
              in_warning_zone := False,
              delay := Some 0\<rparr>)"
    using update_statistics_Fin [of "reset self" 1 x] by (simp del: fsqrt.simps)
  show ?thesis
    by (auto simp: add_element_def u Let_def track_minimum_def simp del: fsqrt.simps)
qed

text \<open>
  Claim C4. If a call of \<^verbatim>\<open>add_element\<close> returns \<^verbatim>\<open>in_drift = true\<close>, the next call
  is the call on the state that \<^verbatim>\<open>reset\<close> gives: it processes its observation with
  \<^verbatim>\<open>sample_count = 1\<close>, \<^verbatim>\<open>miss_prob = 1.0\<close>, \<^verbatim>\<open>miss_std = 0.0\<close> and the three minima
  infinite, it returns, and it leaves \<^verbatim>\<open>sample_count = 2\<close> and the mean equal to its
  observation.
\<close>

theorem drift_resets_on_next_call:
  assumes "add_element self x = Inr (self', True, w)"
  shows "add_element self' y = add_element (reset self') y \<and>
         sample_count (reset self') = 1 \<and>
         miss_prob (reset self') = Fin 1 \<and>
         miss_std (reset self') = Fin 0 \<and>
         miss_prob_sd_min (reset self') = PInf \<and>
         miss_prob_min (reset self') = PInf \<and>
         miss_sd_min (reset self') = PInf \<and>
         (\<exists>self'' out. add_element self' y = Inr (self'', out) \<and>
            sample_count self'' = 2 \<and>
            miss_prob self'' = Fin (of_int y) \<and>
            miss_std self'' = fsqrt (Fin (of_int y * (1 - of_int y))))"
proof -
  from add_element_out [OF assms] have "in_concept_change self'" by simp
  then have e: "add_element self' y = add_element (reset self') y"
    by (rule add_element_lazy_reset)
  from add_element_after_reset [of self' y] e show ?thesis by auto
qed

theorem drift_resets_on_next_call_witness:
  fixes before drifted :: ddm
  defines "before \<equiv> (DDM_init 1 (Fin 2) (Fin 3))\<lparr>sample_count := 2, miss_prob := Fin 0,
             miss_prob_sd_min := Fin 0, miss_prob_min := Fin 0, miss_sd_min := Fin 0\<rparr>"
    and "drifted \<equiv> (DDM_init 1 (Fin 2) (Fin 3))\<lparr>in_concept_change := True,
             sample_count := 3, miss_prob := Fin (1 / 2), miss_std := Fin (sqrt (1 / 8)),
             miss_prob_sd_min := Fin 0, miss_prob_min := Fin 0, miss_sd_min := Fin 0,
             estimation := Some (Fin (1 / 2)), delay := Some 0\<rparr>"
  shows "add_element before 1 = Inr (drifted, True, False) \<and>
         add_element drifted 1 = add_element (reset drifted) 1 \<and>
         sample_count (reset drifted) = 1"
proof -
  have "0 \<le> sqrt (1 / 8 :: real)" by simp
  then have n: "\<not> 1 / 2 + sqrt (1 / 8 :: real) \<le> 0" by linarith
  have a: "add_element before 1 = Inr (drifted, True, False)"
    using n
    by (simp add: before_def drifted_def DDM_init_def add_element_def update_statistics_def
        track_minimum_def classify_def float_of_int_def fgt_def Let_def)
  from a drift_resets_on_next_call [OF a, of 1] show ?thesis by simp
qed

section \<open>The order of the statistics update\<close>

text \<open>
  Claim C7. In every call, after the pending reset if there is one, with \<open>n\<close> the count
  and \<open>p\<close> the mean at that point: the new mean is \<open>p + (x - p) / n\<close>, the new standard
  deviation is the square root of \<open>p' * (1 - p') / n\<close> for the new mean \<open>p'\<close> and the same
  \<open>n\<close>, and only then the count becomes \<open>n + 1\<close>. The first call after a reset divides
  by 1.
\<close>

theorem statistics_update_order:
  assumes "start = (if in_concept_change self then reset self else self)"
    and "miss_prob start = Fin p"
    and "0 < sample_count start"
  shows "(\<exists>self' out. add_element self x = Inr (self', out) \<and>
            miss_prob self' = Fin (p + (of_int x - p) / of_int (sample_count start)) \<and>
            miss_std self' =
              fsqrt (Fin ((p + (of_int x - p) / of_int (sample_count start))
                * (1 - (p + (of_int x - p) / of_int (sample_count start)))
                / of_int (sample_count start))) \<and>
            sample_count self' = sample_count start + 1) \<and>
         (\<exists>self' out. add_element (reset self) x = Inr (self', out) \<and>
            miss_prob self' = Fin (1 + (of_int x - 1) / 1) \<and>
            miss_std self' =
              fsqrt (Fin ((1 + (of_int x - 1) / 1) * (1 - (1 + (of_int x - 1) / 1)) / 1)) \<and>
            sample_count self' = 2)"
proof -
  from assms(3) have nz: "sample_count start \<noteq> 0" by simp
  have a: "add_element self x =
    (case update_statistics start x of
        Inl e \<Rightarrow> Inl e
      | Inr self \<Rightarrow>
          if sample_count self < min_instances self
          then Inr (self, in_concept_change self, in_warning_zone self)
          else let self = classify (track_minimum self)
               in Inr (self, in_concept_change self, in_warning_zone self))"
    by (simp add: add_element_def assms(1))
  have first: "\<exists>self' out. add_element self x = Inr (self', out) \<and>
            miss_prob self' = Fin (p + (of_int x - p) / of_int (sample_count start)) \<and>
            miss_std self' =
              fsqrt (Fin ((p + (of_int x - p) / of_int (sample_count start))
                * (1 - (p + (of_int x - p) / of_int (sample_count start)))
                / of_int (sample_count start))) \<and>
            sample_count self' = sample_count start + 1"
    by (auto simp: a update_statistics_Fin [OF assms(2) nz] Let_def simp del: fsqrt.simps)
  from add_element_after_reset [of self x]
  have second: "\<exists>self' out. add_element (reset self) x = Inr (self', out) \<and>
            miss_prob self' = Fin (1 + (of_int x - 1) / 1) \<and>
            miss_std self' =
              fsqrt (Fin ((1 + (of_int x - 1) / 1) * (1 - (1 + (of_int x - 1) / 1)) / 1)) \<and>
            sample_count self' = 2"
    by (auto simp del: fsqrt.simps)
  from first second show ?thesis by blast
qed

theorem statistics_update_order_witness:
  fixes before :: ddm
  defines "before \<equiv> DDM_default\<lparr>sample_count := 4, miss_prob := Fin (1 / 2)\<rparr>"
  shows "miss_prob before = Fin (1 / 2) \<and> 0 < sample_count before \<and>
         (\<exists>self' out. add_element before 1 = Inr (self', out) \<and>
            miss_prob self' = Fin (5 / 8) \<and>
            miss_std self' = Fin (sqrt (15 / 256)) \<and>
            sample_count self' = 5)"
proof -
  have s: "before = (if in_concept_change before then reset before else before)"
    by (simp add: before_def DDM_default_def DDM_init_def)
  have p: "miss_prob before = Fin (1 / 2)" and c: "0 < sample_count before"
    and n: "sample_count before = 4"
    by (simp_all add: before_def)
  from statistics_update_order [OF s p c, of 1] p c show ?thesis
    by (simp add: n)
qed

section \<open>Observations in \<open>{0, 1}\<close>\<close>

lemma fle_unit_iff: "fle (Fin 0) a \<and> fle a (Fin 1) \<longleftrightarrow> (\<exists>p. a = Fin p \<and> 0 \<le> p \<and> p \<le> 1)"
  by (cases a) auto

lemma fle_nonneg_finite_iff: "fle (Fin 0) a \<and> flt a PInf \<longleftrightarrow> (\<exists>r. a = Fin r \<and> 0 \<le> r)"
  by (cases a) auto

lemma stats_ok_iff:
  "stats_ok self \<longleftrightarrow>
     0 < sample_count self \<and> (\<exists>p. miss_prob self = Fin p \<and> 0 \<le> p \<and> p \<le> 1) \<and>
     (\<exists>sd. miss_std self = Fin sd \<and> 0 \<le> sd) \<and> miss_prob_sd_min self \<noteq> NaN"
  unfolding stats_ok_def using fle_unit_iff [of "miss_prob self"] fle_nonneg_finite_iff [of "miss_std self"]
  by blast

lemma stats_ok_reset [simp]: "stats_ok (reset self)"
  by (simp add: stats_ok_def)

lemma stats_ok_init [simp]: "stats_ok (DDM_init m wl ocl)"
  by (simp add: stats_ok_def DDM_init_def)

text \<open>The new mean lies between the old mean and the observation.\<close>

lemma divide_le_self:
  fixes a r :: real
  assumes "0 \<le> a" and "1 \<le> r"
  shows "a / r \<le> a"
  using divide_left_mono [of 1 r a] assms by simp

lemma mean_step_unit:
  fixes p :: real and n :: int
  assumes "0 \<le> p" "p \<le> 1" "0 < n" "x = 0 \<or> x = 1"
  shows "0 \<le> p + (of_int x - p) / of_int n \<and> p + (of_int x - p) / of_int n \<le> 1"
proof -
  from assms(3) have n: "1 \<le> real_of_int n" by simp
  from assms(4) show ?thesis
  proof
    assume x: "x = 0"
    have "p / real_of_int n \<le> p" using n assms(1)
      by (simp add: divide_le_self)
    moreover have "0 \<le> p / real_of_int n" using n assms(1) by simp
    ultimately show ?thesis using x assms(2) by (simp add: diff_divide_distrib)
  next
    assume x: "x = 1"
    have "(1 - p) / real_of_int n \<le> 1 - p" using n assms(2)
      by (simp add: divide_le_self)
    moreover have "0 \<le> (1 - p) / real_of_int n" using n assms(2) by simp
    ultimately show ?thesis using x assms(1) by simp
  qed
qed

lemma update_statistics_bit:
  assumes "stats_ok self" and "x = 0 \<or> x = 1"
  shows "\<exists>self'. update_statistics self x = Inr self' \<and> stats_ok self'"
proof -
  from assms(1) obtain p where p: "miss_prob self = Fin p" "0 \<le> p" "p \<le> 1"
    and n: "0 < sample_count self"
    by (auto simp: stats_ok_iff)
  define p' where "p' = p + (of_int x - p) / of_int (sample_count self)"
  from mean_step_unit [OF p(2,3) n assms(2)] have p': "0 \<le> p'" "p' \<le> 1"
    by (simp_all add: p'_def)
  then have v: "0 \<le> p' * (1 - p') / of_int (sample_count self)"
    using n by simp
  from n have nz: "sample_count self \<noteq> 0" by simp
  from assms(1) have "miss_prob_sd_min self \<noteq> NaN" by (simp add: stats_ok_def)
  then show ?thesis
    using update_statistics_Fin [OF p(1) nz, of x] p' v n
    by (simp add: stats_ok_iff flip: p'_def)
qed

lemma fle_total: "a \<noteq> NaN \<Longrightarrow> b \<noteq> NaN \<Longrightarrow> fle a b \<or> fle b a"
  by (cases a; cases b) auto

lemma fle_refl: "a \<noteq> NaN \<Longrightarrow> fle a a"
  by (cases a) auto

lemma track_minimum_le:
  assumes "fadd (miss_prob self) (miss_std self) \<noteq> NaN" and "miss_prob_sd_min self \<noteq> NaN"
  shows "fle (miss_prob_sd_min (track_minimum self)) (fadd (miss_prob self) (miss_std self))"
  using fle_total [OF assms] fle_refl [OF assms(1)]
  by (auto simp: track_minimum_def)

lemma track_minimum_ok: "stats_ok self \<Longrightarrow> stats_ok (track_minimum self)"
  by (auto simp: stats_ok_iff track_minimum_def)

lemma classify_ok: "stats_ok self \<Longrightarrow> stats_ok (classify self)"
  by (simp add: stats_ok_def)

lemma stats_ok_sum: "stats_ok self \<Longrightarrow> fadd (miss_prob self) (miss_std self) \<noteq> NaN"
  by (auto simp: stats_ok_iff)

lemma add_element_bit:
  assumes "stats_ok self" and "x = 0 \<or> x = 1"
  shows "\<exists>self' out. add_element self x = Inr (self', out) \<and> stats_ok self' \<and>
           (min_instances self' \<le> sample_count self' \<longrightarrow>
              fle (miss_prob_sd_min self') (fadd (miss_prob self') (miss_std self')))"
proof -
  define s0 where "s0 = (if in_concept_change self then reset self else self)"
  have "stats_ok s0" using assms(1) by (simp add: s0_def)
  from update_statistics_bit [OF this assms(2)] obtain s1 where
    u: "update_statistics s0 x = Inr s1" and ok: "stats_ok s1" by blast
  show ?thesis
  proof (cases "sample_count s1 < min_instances s1")
    case True
    with u ok show ?thesis
      by (simp add: add_element_def flip: s0_def)
  next
    case False
    have "fle (miss_prob_sd_min (track_minimum s1)) (fadd (miss_prob s1) (miss_std s1))"
      using ok by (intro track_minimum_le stats_ok_sum) (simp_all add: stats_ok_def)
    with False u classify_ok [OF track_minimum_ok [OF ok]] show ?thesis
      by (simp add: add_element_def Let_def flip: s0_def)
  qed
qed

lemma run_bits:
  assumes "stats_ok self" and "set xs \<subseteq> {0, 1}"
  shows "\<exists>self' outs. run self xs = Inr (self', outs) \<and> stats_ok self' \<and>
           (xs \<noteq> [] \<longrightarrow> min_instances self' \<le> sample_count self' \<longrightarrow>
              fle (miss_prob_sd_min self') (fadd (miss_prob self') (miss_std self')))"
  using assms
proof (induction xs arbitrary: self)
  case Nil
  then show ?case by simp
next
  case (Cons x xs)
  from Cons.prems(2) have x: "x = 0 \<or> x = 1" and xs: "set xs \<subseteq> {0, 1}" by auto
  from add_element_bit [OF Cons.prems(1) x] obtain s1 out where
    a: "add_element self x = Inr (s1, out)" and ok: "stats_ok s1" and
    le: "min_instances s1 \<le> sample_count s1 \<longrightarrow>
           fle (miss_prob_sd_min s1) (fadd (miss_prob s1) (miss_std s1))"
    by blast
  from Cons.IH [OF ok xs] obtain s2 outs where
    r: "run s1 xs = Inr (s2, outs)" and ok2: "stats_ok s2" and
    le2: "xs \<noteq> [] \<longrightarrow> min_instances s2 \<le> sample_count s2 \<longrightarrow>
           fle (miss_prob_sd_min s2) (fadd (miss_prob s2) (miss_std s2))"
    by blast
  show ?case
  proof (cases xs)
    case Nil
    with a r ok le show ?thesis by simp
  next
    case (Cons y ys)
    with a r ok2 le2 show ?thesis by simp
  qed
qed

lemma start_ok: "start = DDM_init m wl ocl \<or> start = reset self0 \<Longrightarrow> stats_ok start"
  by auto

text \<open>
  Claim C9. On a detector that was just constructed or reset, fed observations that are
  all 0 or 1, every call returns; after every call \<^verbatim>\<open>miss_prob\<close> is a finite number in
  \<open>[0, 1]\<close>, so the argument of the square root is not negative, and \<^verbatim>\<open>miss_std\<close> is a
  finite number that is not negative (never \<^verbatim>\<open>nan\<close>).
\<close>

theorem error_std_nonnegative:
  assumes "start = DDM_init m wl ocl \<or> start = reset self0"
    and "set xs \<subseteq> {0, 1}"
  shows "\<exists>self' outs p sd. run start xs = Inr (self', outs) \<and>
           miss_prob self' = Fin p \<and> 0 \<le> p \<and> p \<le> 1 \<and> 0 \<le> p * (1 - p) \<and>
           miss_std self' = Fin sd \<and> 0 \<le> sd"
proof -
  from run_bits [OF start_ok [OF assms(1)] assms(2)] obtain self' outs where
    r: "run start xs = Inr (self', outs)" and ok: "stats_ok self'" by blast
  from ok obtain p sd where
    p: "miss_prob self' = Fin p" "0 \<le> p" "p \<le> 1" and sd: "miss_std self' = Fin sd" "0 \<le> sd"
    by (auto simp: stats_ok_iff)
  from p have "0 \<le> p * (1 - p)" by simp
  with r p sd show ?thesis by blast
qed

theorem error_std_nonnegative_witness:
  "set [1, 0] \<subseteq> {0, 1 :: int} \<and>
   (\<exists>self' outs p sd. run DDM_default [1, 0] = Inr (self', outs) \<and>
      miss_prob self' = Fin p \<and> 0 \<le> p \<and> p \<le> 1 \<and> 0 \<le> p * (1 - p) \<and>
      miss_std self' = Fin sd \<and> 0 \<le> sd)"
proof -
  have s: "DDM_default = DDM_init 30 (Fin 2) (Fin 3) \<or> DDM_default = reset DDM_default"
    by (simp add: DDM_default_def)
  have b: "set [1, 0] \<subseteq> {0, 1 :: int}" by simp
  from error_std_nonnegative [OF s b] b show ?thesis by blast
qed

section \<open>A stream through the warm-up\<close>

text \<open>
  A detector with \<^verbatim>\<open>min_num_instances = 3\<close> fed 0 and then 1: the first call ends at the
  guard, the second passes it.
\<close>

lemma run_example_warm_up:
  "run (DDM_init 3 (Fin 2) (Fin 3)) [0, 1] =
     Inr ((DDM_init 3 (Fin 2) (Fin 3))\<lparr>sample_count := 3, miss_prob := Fin (1 / 2),
            miss_std := Fin (sqrt (1 / 8)), miss_prob_sd_min := Fin (1 / 2 + sqrt (1 / 8)),
            miss_prob_min := Fin (1 / 2), miss_sd_min := Fin (sqrt (1 / 8)),
            estimation := Some (Fin (1 / 2)), delay := Some 0\<rparr>,
          [(False, False), (False, False)])"
proof -
  have "0 \<le> sqrt (1 / 8 :: real)" by simp
  then show ?thesis
    by (simp add: DDM_init_def add_element_def update_statistics_def track_minimum_def
        classify_def float_of_int_def fgt_def Let_def)
qed

lemma trace_example_warm_up:
  "trace (DDM_init 3 (Fin 2) (Fin 3)) [0, 1] =
     [(DDM_init 3 (Fin 2) (Fin 3))\<lparr>sample_count := 2, miss_prob := Fin 0,
        estimation := Some (Fin 0), delay := Some 0\<rparr>,
      (DDM_init 3 (Fin 2) (Fin 3))\<lparr>sample_count := 3, miss_prob := Fin (1 / 2),
        miss_std := Fin (sqrt (1 / 8)), miss_prob_sd_min := Fin (1 / 2 + sqrt (1 / 8)),
        miss_prob_min := Fin (1 / 2), miss_sd_min := Fin (sqrt (1 / 8)),
        estimation := Some (Fin (1 / 2)), delay := Some 0\<rparr>]"
proof -
  have "0 \<le> sqrt (1 / 8 :: real)" by simp
  then show ?thesis
    by (simp add: DDM_init_def add_element_def update_statistics_def track_minimum_def
        classify_def float_of_int_def fgt_def Let_def)
qed

section \<open>The minimum against the current statistics\<close>

text \<open>
  Claim C3, as amended. On a detector that was just constructed or reset, fed
  observations that are all 0 or 1: after every call that is not cut short by the
  warm-up guard of line 137 (the count after the increment is at least
  \<^verbatim>\<open>min_instances\<close>), \<^verbatim>\<open>miss_prob_sd_min <= miss_prob + miss_std\<close>.
\<close>

theorem min_sum_le_after_warm_up:
  assumes "start = DDM_init m wl ocl \<or> start = reset self0"
    and "set xs \<subseteq> {0, 1}"
    and "xs \<noteq> []"
  shows "\<exists>self' outs. run start xs = Inr (self', outs) \<and>
           (min_instances self' \<le> sample_count self' \<longrightarrow>
              fle (miss_prob_sd_min self') (fadd (miss_prob self') (miss_std self')))"
  using run_bits [OF start_ok [OF assms(1)] assms(2)] assms(3) by blast

theorem min_sum_le_after_warm_up_witness:
  fixes final :: ddm
  defines "final \<equiv> (DDM_init 3 (Fin 2) (Fin 3))\<lparr>sample_count := 3,
             miss_prob := Fin (1 / 2), miss_std := Fin (sqrt (1 / 8)),
             miss_prob_sd_min := Fin (1 / 2 + sqrt (1 / 8)),
             miss_prob_min := Fin (1 / 2), miss_sd_min := Fin (sqrt (1 / 8)),
             estimation := Some (Fin (1 / 2)), delay := Some 0\<rparr>"
  shows "set [0, 1] \<subseteq> {0, 1 :: int} \<and>
         run (DDM_init 3 (Fin 2) (Fin 3)) [0, 1] =
           Inr (final, [(False, False), (False, False)]) \<and>
         min_instances final \<le> sample_count final \<and>
         fle (miss_prob_sd_min final) (fadd (miss_prob final) (miss_std final))"
proof -
  have r: "run (DDM_init 3 (Fin 2) (Fin 3)) [0, 1] =
             Inr (final, [(False, False), (False, False)])"
    unfolding final_def by (rule run_example_warm_up)
  have s: "DDM_init 3 (Fin 2) (Fin 3) = DDM_init 3 (Fin 2) (Fin 3) \<or>
           DDM_init 3 (Fin 2) (Fin 3) = reset DDM_default"
    by simp
  have b: "set [0, 1] \<subseteq> {0, 1 :: int}" and n: "[0, 1 :: int] \<noteq> []" by simp_all
  have g: "min_instances final \<le> sample_count final"
    by (simp add: final_def DDM_init_def)
  from min_sum_le_after_warm_up [OF s b n] r g b show ?thesis
    by auto
qed

text \<open>
  The claim as stated fails during the warm-up: after the first observation of a default
  detector the minimum is still infinite, and \<^verbatim>\<open>miss_prob + miss_std\<close> is 0.
\<close>

theorem min_sum_le_counterexample:
  fixes after :: ddm
  defines "after \<equiv> DDM_default\<lparr>sample_count := 2, miss_prob := Fin 0,
             estimation := Some (Fin 0), delay := Some 0\<rparr>"
  shows "run DDM_default [0] = Inr (after, [(False, False)]) \<and>
         miss_prob_sd_min after = PInf \<and>
         fadd (miss_prob after) (miss_std after) = Fin 0 \<and>
         \<not> fle (miss_prob_sd_min after) (fadd (miss_prob after) (miss_std after))"
  by (simp add: after_def DDM_default_def DDM_init_def add_element_def update_statistics_def
      float_of_int_def Let_def)

section \<open>What the minimum ranges over\<close>

text \<open>On finite values the tracked minimum is the least value.\<close>

lemma running_min_Fin:
  "running_min (Fin m) (map Fin rs) = Fin (Min (insert m (set rs)))"
proof (induction rs arbitrary: m)
  case Nil
  then show ?case by simp
next
  case (Cons r rs)
  have "Min (insert m (insert r (set rs))) = Min (insert (min r m) (set rs))"
    by (cases "set rs = {}") (simp_all add: min.assoc min.commute min.left_commute)
  then show ?case
    by (simp add: Cons.IH min_def)
qed

lemma running_min_PInf:
  "running_min PInf (map Fin rs) = (if rs = [] then PInf else Fin (Min (set rs)))"
  by (cases rs) (simp_all add: running_min_Fin)

text \<open>One call with no reset pending: the guard of line 137 decides whether the minimum moves.\<close>

lemma add_element_min_step:
  assumes "\<not> in_concept_change self" and "add_element self x = Inr (self', out)"
  shows "miss_prob_sd_min self' =
         running_min (miss_prob_sd_min self) (map miss_sum (filter past_warm_up [self']))"
  using assms
  by (auto simp: add_element_def Let_def past_warm_up_def miss_sum_def track_minimum_def
      split: sum.splits if_splits dest!: update_statistics_minima)

lemma running_min_append:
  "running_min m (vs @ ws) = running_min (running_min m vs) ws"
  by (induction vs arbitrary: m) simp_all

lemma run_min_general:
  assumes "\<not> in_concept_change self"
    and "run self xs = Inr (self', outs)"
    and "\<forall>(d, w) \<in> set (butlast outs). \<not> d"
  shows "miss_prob_sd_min self' =
         running_min (miss_prob_sd_min self)
           (map miss_sum (filter past_warm_up (trace self xs)))"
  using assms
proof (induction xs arbitrary: self outs)
  case Nil
  then show ?case by simp
next
  case (Cons x xs)
  from Cons.prems(2) obtain s1 d1 w1 outs1 where
    a: "add_element self x = Inr (s1, d1, w1)" and
    r: "run s1 xs = Inr (self', outs1)" and o: "outs = (d1, w1) # outs1"
    by (auto split: sum.splits)
  have step: "miss_prob_sd_min s1 =
      running_min (miss_prob_sd_min self) (map miss_sum (filter past_warm_up [s1]))"
    by (rule add_element_min_step [OF Cons.prems(1) a])
  show ?case
  proof (cases xs)
    case Nil
    with r have "self' = s1" by simp
    with step a Nil show ?thesis by simp
  next
    case (Cons y ys)
    from run_total [of s1 xs] r Cons have "outs1 \<noteq> []"
      by (auto split: sum.splits)
    with Cons.prems(3) o have nd: "\<not> d1" and rest: "\<forall>(d, w) \<in> set (butlast outs1). \<not> d"
      by auto
    from add_element_out [OF a] nd have "\<not> in_concept_change s1" by simp
    from Cons.IH [OF this r rest] have
      "miss_prob_sd_min self' =
         running_min (miss_prob_sd_min s1) (map miss_sum (filter past_warm_up (trace s1 xs)))" .
    with step a show ?thesis
      by (simp add: running_min_append [symmetric])
  qed
qed

lemma trace_bits:
  assumes "stats_ok self" and "set xs \<subseteq> {0, 1}"
  shows "\<forall>t \<in> set (trace self xs). stats_ok t"
  using assms
proof (induction xs arbitrary: self)
  case Nil
  then show ?case by simp
next
  case (Cons x xs)
  from Cons.prems(2) have x: "x = 0 \<or> x = 1" and xs: "set xs \<subseteq> {0, 1}" by auto
  from add_element_bit [OF Cons.prems(1) x] obtain s1 out where
    a: "add_element self x = Inr (s1, out)" and ok: "stats_ok s1" by blast
  from Cons.IH [OF ok xs] a ok show ?case by simp
qed

lemma stats_ok_miss_sum: "stats_ok self \<Longrightarrow> \<exists>r. miss_sum self = Fin r"
  by (auto simp: stats_ok_iff miss_sum_def)

text \<open>
  Claim C2, as amended. The minimum tracking of lines 140 to 143 runs only on the calls
  that pass the warm-up guard of line 137. On a detector that was just constructed or
  reset, fed observations that are all 0 or 1, every call returns, and as long as no
  earlier call of the stream returned a drift (so that no reset happened within it),
  \<^verbatim>\<open>miss_prob_sd_min\<close> is the least \<^verbatim>\<open>miss_prob + miss_std\<close> over the calls whose count
  after the increment was at least \<^verbatim>\<open>min_instances\<close>, and infinite when there was none.
\<close>

theorem min_sum_is_gated_minimum:
  assumes "start = DDM_init m wl ocl \<or> start = reset self0"
    and "set xs \<subseteq> {0, 1}"
  shows "\<exists>self' outs rs. run start xs = Inr (self', outs) \<and>
           map miss_sum (filter past_warm_up (trace start xs)) = map Fin rs \<and>
           ((\<forall>(d, w) \<in> set (butlast outs). \<not> d) \<longrightarrow>
              miss_prob_sd_min self' = gated_min_sum start xs \<and>
              miss_prob_sd_min self' = (if rs = [] then PInf else Fin (Min (set rs))))"
proof -
  have ok: "stats_ok start" by (rule start_ok [OF assms(1)])
  from assms(1) have nc: "\<not> in_concept_change start" and inf: "miss_prob_sd_min start = PInf"
    by (auto simp: DDM_init_def)
  from run_bits [OF ok assms(2)] obtain self' outs where
    r: "run start xs = Inr (self', outs)" by blast
  have "\<forall>v \<in> set (map miss_sum (filter past_warm_up (trace start xs))). \<exists>r. v = Fin r"
    using trace_bits [OF ok assms(2)] stats_ok_miss_sum by auto
  then obtain rs where rs: "map miss_sum (filter past_warm_up (trace start xs)) = map Fin rs"
    by (metis ex_map_conv)
  have "miss_prob_sd_min self' = gated_min_sum start xs \<and>
        miss_prob_sd_min self' = (if rs = [] then PInf else Fin (Min (set rs)))"
    if "\<forall>(d, w) \<in> set (butlast outs). \<not> d"
  proof -
    from run_min_general [OF nc r that] inf
    have g: "miss_prob_sd_min self' = gated_min_sum start xs"
      by (simp add: gated_min_sum_def)
    then have "miss_prob_sd_min self' = running_min PInf (map Fin rs)"
      by (simp add: gated_min_sum_def rs)
    with g show ?thesis by (simp only: running_min_PInf)
  qed
  with r rs show ?thesis by blast
qed

text \<open>
  The claim as stated fails there: the first call has \<^verbatim>\<open>miss_prob + miss_std = 0\<close>, the
  least value of the stream, and the detector's minimum after the second call is the
  second call's \<open>1/2 + sqrt (1/8)\<close>.
\<close>

theorem min_sum_all_calls_counterexample:
  fixes final :: ddm
  defines "final \<equiv> (DDM_init 3 (Fin 2) (Fin 3))\<lparr>sample_count := 3,
             miss_prob := Fin (1 / 2), miss_std := Fin (sqrt (1 / 8)),
             miss_prob_sd_min := Fin (1 / 2 + sqrt (1 / 8)),
             miss_prob_min := Fin (1 / 2), miss_sd_min := Fin (sqrt (1 / 8)),
             estimation := Some (Fin (1 / 2)), delay := Some 0\<rparr>"
  shows "run (DDM_init 3 (Fin 2) (Fin 3)) [0, 1] =
           Inr (final, [(False, False), (False, False)]) \<and>
         miss_prob_sd_min final = Fin (1 / 2 + sqrt (1 / 8)) \<and>
         spec_min_sum (DDM_init 3 (Fin 2) (Fin 3)) [0, 1] = Fin 0 \<and>
         miss_prob_sd_min final \<noteq> spec_min_sum (DDM_init 3 (Fin 2) (Fin 3)) [0, 1]"
proof -
  have g: "0 \<le> sqrt (1 / 8 :: real)" by simp
  then have n: "1 / 2 + sqrt (1 / 8 :: real) \<noteq> 0"
    and n': "\<not> 1 / 2 + sqrt (1 / 8 :: real) \<le> 0" by linarith+
  have sp: "spec_min_sum (DDM_init 3 (Fin 2) (Fin 3)) [0, 1] = Fin 0"
    unfolding spec_min_sum_def trace_example_warm_up
    using n' by (simp add: miss_sum_def DDM_init_def)
  have r: "run (DDM_init 3 (Fin 2) (Fin 3)) [0, 1] =
             Inr (final, [(False, False), (False, False)])"
    unfolding final_def by (rule run_example_warm_up)
  have m: "miss_prob_sd_min final = Fin (1 / 2 + sqrt (1 / 8))"
    by (simp add: final_def)
  from r m sp n show ?thesis by simp
qed

theorem min_sum_is_gated_minimum_witness:
  fixes final :: ddm
  defines "final \<equiv> (DDM_init 3 (Fin 2) (Fin 3))\<lparr>sample_count := 3,
             miss_prob := Fin (1 / 2), miss_std := Fin (sqrt (1 / 8)),
             miss_prob_sd_min := Fin (1 / 2 + sqrt (1 / 8)),
             miss_prob_min := Fin (1 / 2), miss_sd_min := Fin (sqrt (1 / 8)),
             estimation := Some (Fin (1 / 2)), delay := Some 0\<rparr>"
  shows "set [0, 1] \<subseteq> {0, 1 :: int} \<and>
         run (DDM_init 3 (Fin 2) (Fin 3)) [0, 1] =
           Inr (final, [(False, False), (False, False)]) \<and>
         miss_prob_sd_min final = gated_min_sum (DDM_init 3 (Fin 2) (Fin 3)) [0, 1] \<and>
         gated_min_sum (DDM_init 3 (Fin 2) (Fin 3)) [0, 1] = Fin (1 / 2 + sqrt (1 / 8))"
proof -
  have s: "DDM_init 3 (Fin 2) (Fin 3) = DDM_init 3 (Fin 2) (Fin 3) \<or>
           DDM_init 3 (Fin 2) (Fin 3) = reset DDM_default"
    by simp
  have b: "set [0, 1] \<subseteq> {0, 1 :: int}" by simp
  have r: "run (DDM_init 3 (Fin 2) (Fin 3)) [0, 1] =
             Inr (final, [(False, False), (False, False)])"
    unfolding final_def by (rule run_example_warm_up)
  from min_sum_is_gated_minimum [OF s b] r
  have g: "miss_prob_sd_min final = gated_min_sum (DDM_init 3 (Fin 2) (Fin 3)) [0, 1]"
    by auto
  have m: "miss_prob_sd_min final = Fin (1 / 2 + sqrt (1 / 8))"
    by (simp add: final_def)
  from r b g m show ?thesis by simp
qed

section \<open>The warning comparison\<close>

lemma flt_irrefl: "\<not> flt a a"
  by (cases a) auto

lemma classify_warning:
  "\<not> in_warning_zone self \<Longrightarrow>
   in_warning_zone (classify self) \<longleftrightarrow>
     \<not> fgt (miss_sum self) (out_control_threshold self) \<and>
     fgt (miss_sum self) (warning_threshold self)"
  by (simp add: classify_def miss_sum_def warning_threshold_def out_control_threshold_def)

lemma classify_thresholds [simp]:
  "miss_sum (classify self) = miss_sum self"
  "warning_threshold (classify self) = warning_threshold self"
  "out_control_threshold (classify self) = out_control_threshold self"
  by (simp_all add: miss_sum_def warning_threshold_def out_control_threshold_def)

text \<open>When a call returns \<^verbatim>\<open>in_warning = true\<close>.\<close>

lemma add_element_warning:
  assumes "add_element self x = Inr (self', d, w)"
  shows "w \<longleftrightarrow> past_warm_up self' \<and> \<not> fgt (miss_sum self') (out_control_threshold self') \<and>
     fgt (miss_sum self') (warning_threshold self')"
proof -
  define s0 where "s0 = (if in_concept_change self then reset self else self)"
  from assms obtain s1 where u: "update_statistics s0 x = Inr s1"
    by (auto simp: add_element_def s0_def split: sum.splits)
  from update_statistics_flags [OF u] have f: "\<not> in_warning_zone (track_minimum s1)"
    and f1: "\<not> in_warning_zone s1" by simp_all
  show ?thesis
  proof (cases "sample_count s1 < min_instances s1")
    case True
    with assms u f1 show ?thesis
      by (auto simp: add_element_def past_warm_up_def simp flip: s0_def)
  next
    case False
    with assms u have s': "self' = classify (track_minimum s1)" and w: "w = in_warning_zone self'"
      by (auto simp: add_element_def Let_def simp flip: s0_def)
    from False have "past_warm_up self'"
      by (simp add: s' past_warm_up_def)
    with w classify_warning [OF f] show ?thesis
      by (simp add: s')
  qed
qed

text \<open>
  A default-level detector with \<^verbatim>\<open>min_num_instances = 5\<close> fed 0, 0, 0, 1, 1, 1: the fourth
  call sets the minimum, the sixth is above the warning threshold and below the drift
  threshold. The square roots that occur, between rational bounds:
\<close>

lemma sqrt_bounds:
  "1 / 5 < sqrt (3 / 64 :: real)" "sqrt (3 / 64 :: real) < 9 / 40"
  "1 / 5 < sqrt (6 / 125 :: real)" "sqrt (6 / 125 :: real) < 1 / 4"
  "1 / 5 < sqrt (1 / 24 :: real)" "sqrt (1 / 24 :: real) < 1 / 4"
proof -
  show "1 / 5 < sqrt (3 / 64 :: real)"
    by (rule real_less_rsqrt) (simp add: power2_eq_square)
  show "sqrt (3 / 64 :: real) < 9 / 40"
    by (rule real_less_lsqrt) (simp_all add: power2_eq_square)
  show "1 / 5 < sqrt (6 / 125 :: real)"
    by (rule real_less_rsqrt) (simp add: power2_eq_square)
  show "sqrt (6 / 125 :: real) < 1 / 4"
    by (rule real_less_lsqrt) (simp_all add: power2_eq_square)
  show "1 / 5 < sqrt (1 / 24 :: real)"
    by (rule real_less_rsqrt) (simp add: power2_eq_square)
  show "sqrt (1 / 24 :: real) < 1 / 4"
    by (rule real_less_lsqrt) (simp_all add: power2_eq_square)
qed

lemma run_example_warning:
  "run (DDM_init 5 (Fin 2) (Fin 3)) [0, 0, 0, 1, 1, 1] =
     Inr ((DDM_init 5 (Fin 2) (Fin 3))\<lparr>in_warning_zone := True,
            sample_count := 7, miss_prob := Fin (1 / 2), miss_std := Fin (sqrt (1 / 24)),
            miss_prob_sd_min := Fin (1 / 4 + sqrt (3 / 64)),
            miss_prob_min := Fin (1 / 4), miss_sd_min := Fin (sqrt (3 / 64)),
            estimation := Some (Fin (1 / 2)), delay := Some 0\<rparr>,
          [(False, False), (False, False), (False, False), (False, False),
           (False, False), (False, True)])"
  using sqrt_bounds
  by (simp add: DDM_init_def add_element_def update_statistics_def track_minimum_def
        classify_def float_of_int_def fgt_def Let_def)

text \<open>
  Claim C6. The warning comparison is strict. A call after which
  \<^verbatim>\<open>miss_prob + miss_std\<close> equals \<^verbatim>\<open>miss_prob_min + warning_level * miss_sd_min\<close>
  (the minima being those after the call's tracking step) returns
  \<^verbatim>\<open>in_warning = false\<close>; a call past the warm-up after which the sum exceeds that
  threshold and does not exceed the drift threshold returns \<^verbatim>\<open>in_warning = true\<close>, and
  the stream 0, 0, 0, 1, 1, 1 above is such an input.
\<close>

theorem warning_comparison_strict:
  "(add_element self x = Inr (self', d, w) \<longrightarrow>
      miss_sum self' = warning_threshold self' \<longrightarrow> \<not> w) \<and>
   (add_element self x = Inr (self', d, w) \<longrightarrow> past_warm_up self' \<longrightarrow>
      fgt (miss_sum self') (warning_threshold self') \<longrightarrow>
      \<not> fgt (miss_sum self') (out_control_threshold self') \<longrightarrow> w) \<and>
   (\<exists>final outs. run (DDM_init 5 (Fin 2) (Fin 3)) [0, 0, 0, 1, 1, 1] = Inr (final, outs) \<and>
      last outs = (False, True) \<and>
      fgt (miss_sum final) (warning_threshold final) \<and>
      \<not> fgt (miss_sum final) (out_control_threshold final))"
proof -
  have strict: "\<not> w"
    if "add_element self x = Inr (self', d, w)" and "miss_sum self' = warning_threshold self'"
    using add_element_warning [OF that(1)] that(2) by (simp add: fgt_def flt_irrefl)
  have above: "w"
    if "add_element self x = Inr (self', d, w)" and "past_warm_up self'"
      and "fgt (miss_sum self') (warning_threshold self')"
      and "\<not> fgt (miss_sum self') (out_control_threshold self')"
    using add_element_warning [OF that(1)] that(2-4) by simp
  define final where "final = (DDM_init 5 (Fin 2) (Fin 3))\<lparr>in_warning_zone := True,
            sample_count := 7, miss_prob := Fin (1 / 2), miss_std := Fin (sqrt (1 / 24)),
            miss_prob_sd_min := Fin (1 / 4 + sqrt (3 / 64)),
            miss_prob_min := Fin (1 / 4), miss_sd_min := Fin (sqrt (3 / 64)),
            estimation := Some (Fin (1 / 2)), delay := Some 0\<rparr>"
  define outs where "outs = [(False, False), (False, False), (False, False), (False, False),
           (False, False), (False, True)]"
  have r: "run (DDM_init 5 (Fin 2) (Fin 3)) [0, 0, 0, 1, 1, 1] = Inr (final, outs)"
    unfolding final_def outs_def by (rule run_example_warning)
  have l: "last outs = (False, True)"
    by (simp add: outs_def)
  have t: "fgt (miss_sum final) (warning_threshold final)"
    "\<not> fgt (miss_sum final) (out_control_threshold final)"
    using sqrt_bounds
    by (simp_all add: final_def DDM_init_def miss_sum_def warning_threshold_def
        out_control_threshold_def fgt_def)
  from r l t have "\<exists>final outs.
      run (DDM_init 5 (Fin 2) (Fin 3)) [0, 0, 0, 1, 1, 1] = Inr (final, outs) \<and>
      last outs = (False, True) \<and>
      fgt (miss_sum final) (warning_threshold final) \<and>
      \<not> fgt (miss_sum final) (out_control_threshold final)"
    by blast
  with strict above show ?thesis by blast
qed

theorem warning_comparison_strict_witness:
  fixes tied fifth final :: ddm
  defines "tied \<equiv> (DDM_init 1 (Fin 2) (Fin 3))\<lparr>sample_count := 2,
             miss_prob_sd_min := Fin 1, miss_prob_min := Fin 1, miss_sd_min := Fin 0,
             estimation := Some (Fin 1), delay := Some 0\<rparr>"
    and "fifth \<equiv> (DDM_init 5 (Fin 2) (Fin 3))\<lparr>sample_count := 6,
             miss_prob := Fin (2 / 5), miss_std := Fin (sqrt (6 / 125)),
             miss_prob_sd_min := Fin (1 / 4 + sqrt (3 / 64)),
             miss_prob_min := Fin (1 / 4), miss_sd_min := Fin (sqrt (3 / 64)),
             estimation := Some (Fin (2 / 5)), delay := Some 0\<rparr>"
    and "final \<equiv> (DDM_init 5 (Fin 2) (Fin 3))\<lparr>in_warning_zone := True,
             sample_count := 7, miss_prob := Fin (1 / 2), miss_std := Fin (sqrt (1 / 24)),
             miss_prob_sd_min := Fin (1 / 4 + sqrt (3 / 64)),
             miss_prob_min := Fin (1 / 4), miss_sd_min := Fin (sqrt (3 / 64)),
             estimation := Some (Fin (1 / 2)), delay := Some 0\<rparr>"
  shows "add_element (DDM_init 1 (Fin 2) (Fin 3)) 1 = Inr (tied, False, False) \<and>
         miss_sum tied = warning_threshold tied \<and>
         add_element fifth 1 = Inr (final, False, True) \<and>
         past_warm_up final \<and>
         fgt (miss_sum final) (warning_threshold final) \<and>
         \<not> fgt (miss_sum final) (out_control_threshold final)"
proof -
  have a: "add_element (DDM_init 1 (Fin 2) (Fin 3)) 1 = Inr (tied, False, False)"
    by (simp add: tied_def DDM_init_def add_element_def update_statistics_def
        track_minimum_def classify_def float_of_int_def fgt_def Let_def)
  have e: "miss_sum tied = warning_threshold tied"
    by (simp add: tied_def DDM_init_def miss_sum_def warning_threshold_def)
  have b: "add_element fifth 1 = Inr (final, False, True)"
    using sqrt_bounds
    by (simp add: fifth_def final_def DDM_init_def add_element_def update_statistics_def
        track_minimum_def classify_def float_of_int_def fgt_def Let_def)
  have p: "past_warm_up final"
    by (simp add: final_def DDM_init_def past_warm_up_def)
  have t: "fgt (miss_sum final) (warning_threshold final)"
    "\<not> fgt (miss_sum final) (out_control_threshold final)"
    using sqrt_bounds
    by (simp_all add: final_def DDM_init_def miss_sum_def warning_threshold_def
        out_control_threshold_def fgt_def)
  from a e b p t
    warning_comparison_strict [of "DDM_init 1 (Fin 2) (Fin 3)" 1 tied False False]
    warning_comparison_strict [of fifth 1 final False True]
  show ?thesis by simp
qed

section \<open>The warm-up guard\<close>

text \<open>
  The guard of line 137 reads the count after the increment of line 130. A call that it
  ends returns \<^verbatim>\<open>(False, False)\<close>.
\<close>

lemma add_element_warm_up:
  assumes "add_element self x = Inr (self', d, w)"
    and "sample_count self' < min_instances self'"
  shows "\<not> d \<and> \<not> w"
proof -
  define s0 where "s0 = (if in_concept_change self then reset self else self)"
  from assms(1) obtain s1 where u: "update_statistics s0 x = Inr s1"
    by (auto simp: add_element_def s0_def split: sum.splits)
  from update_statistics_config [OF u] update_statistics_count [OF u]
  have "sample_count (classify (track_minimum s1)) = sample_count s1"
    "min_instances (classify (track_minimum s1)) = min_instances s1" by simp_all
  with assms u have "self' = s1" "d = in_concept_change s1" "w = in_warning_zone s1"
    by (auto simp: add_element_def Let_def simp flip: s0_def split: if_splits)
  with update_statistics_flags [OF u] show ?thesis by simp
qed

text \<open>
  In a stream, the call at index \<open>i\<close> (from 0) on a detector whose count was \<open>c\<close> leaves
  the count \<open>c + 1 + i\<close>: from a fresh detector (\<open>c = 1\<close>) the \<open>k\<close>-th observation is
  suppressed when \<open>k + 1 < min_instances\<close>.
\<close>

lemma run_warm_up:
  assumes "run self xs = Inr (self', outs)"
    and "\<not> in_concept_change self"
    and "i < length outs"
    and "sample_count self + 1 + int i < min_instances self"
  shows "outs ! i = (False, False)"
  using assms
proof (induction xs arbitrary: self outs i)
  case Nil
  then show ?case by simp
next
  case (Cons x xs)
  from Cons.prems(1) obtain s1 d1 w1 outs1 where
    a: "add_element self x = Inr (s1, d1, w1)" and
    r: "run s1 xs = Inr (self', outs1)" and o: "outs = (d1, w1) # outs1"
    by (auto split: sum.splits)
  from add_element_count [OF a] Cons.prems(2) have c: "sample_count s1 = sample_count self + 1"
    by simp
  from add_element_config [OF a] have m: "min_instances s1 = min_instances self" by simp
  from c m Cons.prems(4) have "sample_count s1 < min_instances s1" by simp
  from add_element_warm_up [OF a this] have f: "\<not> d1" "\<not> w1" by simp_all
  show ?case
  proof (cases i)
    case 0
    with o f show ?thesis by simp
  next
    case (Suc j)
    from add_element_out [OF a] f have nc: "\<not> in_concept_change s1" by simp
    from Suc Cons.prems(3) o have j: "j < length outs1" by simp
    from Suc Cons.prems(4) c m have "sample_count s1 + 1 + int j < min_instances s1" by simp
    from Cons.IH [OF r nc j this] Suc o show ?thesis by simp
  qed
qed

text \<open>
  Claim C1. The claim is that the \<open>i\<close>-th observation since the last reset returns
  \<^verbatim>\<open>(False, False)\<close> whenever \<open>i < min_instances\<close>. The guard suppresses one call
  fewer: with \<^verbatim>\<open>min_num_instances = 3\<close>, \<^verbatim>\<open>warning_level = 0.25\<close> and
  \<^verbatim>\<open>out_control_level = 0.5\<close>, the second observation of the stream 1, 0 leaves the
  count at 3, passes the guard and returns \<^verbatim>\<open>in_drift = true\<close>.
\<close>

theorem warm_up_drift_at_second_of_three:
  "run (DDM_init 3 (Fin (1 / 4)) (Fin (1 / 2))) [1, 0] =
     Inr ((DDM_init 3 (Fin (1 / 4)) (Fin (1 / 2)))\<lparr>in_concept_change := True,
            sample_count := 3, miss_prob := Fin (1 / 2), miss_std := Fin (sqrt (1 / 8)),
            miss_prob_sd_min := Fin (1 / 2 + sqrt (1 / 8)),
            miss_prob_min := Fin (1 / 2), miss_sd_min := Fin (sqrt (1 / 8)),
            estimation := Some (Fin (1 / 2)), delay := Some 0\<rparr>,
          [(False, False), (True, False)]) \<and>
   (2 :: int) < min_instances (DDM_init 3 (Fin (1 / 4)) (Fin (1 / 2)))"
proof -
  have "0 < sqrt (1 / 8 :: real)" by simp
  then show ?thesis
    by (simp add: DDM_init_def add_element_def update_statistics_def track_minimum_def
        classify_def float_of_int_def fgt_def Let_def)
qed

end
